theory Spec2Isabelle
  imports Main "HOL-Library.Word"
begin

unbundle bit_operations_syntax

section \<open>Lexical paths (Go \<open>path/filepath\<close> and \<open>strings\<close>, Unix separator)\<close>

text \<open>
  The runner of \<open>provisionerd.go\<close> computes the on-disk path of every tar entry with
  \<open>filepath.Join\<close>, cleans the work directory with \<open>filepath.Clean\<close> and compares the two
  with \<open>strings.HasPrefix\<close>. These three are functions of the Go standard library; they
  are embedded here as the library documents them for a Unix separator:
  \<open>Clean\<close> collapses repeated separators, drops every \<open>.\<close> element, drops an inner \<open>..\<close>
  together with the element before it, drops a \<open>..\<close> that begins a rooted path, and
  returns \<open>.\<close> for an empty result; \<open>Join\<close> glues its arguments from the first non-empty
  one on with the separator and cleans the result.
\<close>

fun splitSep :: "string \<Rightarrow> string list" where
  "splitSep [] = [[]]"
| "splitSep (c # cs) =
     (if c = CHR ''/'' then [] # splitSep cs
      else (case splitSep cs of [] \<Rightarrow> [[c]] | x # xs \<Rightarrow> (c # x) # xs))"

fun joinSep :: "string list \<Rightarrow> string" where
  "joinSep [] = []"
| "joinSep [x] = x"
| "joinSep (x # y # ys) = x @ CHR ''/'' # joinSep (y # ys)"

definition cleanStep :: "bool \<Rightarrow> string list \<Rightarrow> string \<Rightarrow> string list" where
  "cleanStep rooted out c =
     (if c = [] \<or> c = ''.'' then out
      else if c = ''..'' then
        (if out \<noteq> [] \<and> last out \<noteq> ''..'' then butlast out
         else if rooted then out
         else out @ [''..''])
      else out @ [c])"

definition isRooted :: "string \<Rightarrow> bool" where
  "isRooted p = (case p of [] \<Rightarrow> False | c # _ \<Rightarrow> c = CHR ''/'')"

definition cleanElems :: "string \<Rightarrow> string list" where
  "cleanElems p = foldl (cleanStep (isRooted p)) [] (splitSep p)"

definition Clean :: "string \<Rightarrow> string" where
  "Clean p =
     (let s = (if isRooted p then ''/'' else []) @ joinSep (cleanElems p)
      in if s = [] then ''.'' else s)"

definition Join :: "string \<Rightarrow> string \<Rightarrow> string" where
  "Join a b =
     (if a \<noteq> [] then Clean (a @ CHR ''/'' # b)
      else if b \<noteq> [] then Clean b
      else [])"

fun HasPrefix :: "string \<Rightarrow> string \<Rightarrow> bool" where
  "HasPrefix s [] = True"
| "HasPrefix [] (p # ps) = False"
| "HasPrefix (c # cs) (p # ps) = (c = p \<and> HasPrefix cs ps)"

text \<open>
  Containment of one path in a directory, element by element: the elements of the
  cleaned directory are an initial segment of the elements of the cleaned path, and what
  is left of the path does not climb with \<open>..\<close>. This is the reading of "lies under the
  work directory" used below.
\<close>

fun withinElems :: "string list \<Rightarrow> string list \<Rightarrow> bool" where
  "withinElems [] [] = True"
| "withinElems [] (q # qs) = (q \<noteq> ''..'')"
| "withinElems (r # rs) [] = False"
| "withinElems (r # rs) (q # qs) = (r = q \<and> withinElems rs qs)"

definition pathWithin :: "string \<Rightarrow> string \<Rightarrow> bool" where
  "pathWithin root path =
     (isRooted root = isRooted path \<and> withinElems (cleanElems root) (cleanElems path))"

section \<open>Tar headers (Go \<open>archive/tar\<close>)\<close>

text \<open>
  A header as \<open>reader.Next()\<close> hands it to the runner. Only the three fields the runner
  reads are kept: \<open>Name\<close>, \<open>Mode\<close> (an \<open>int64\<close>) and \<open>Typeflag\<close> (a byte).
\<close>

record Header =
  Name :: string
  Mode :: "64 word"
  Typeflag :: char

definition TypeReg :: char where "TypeReg = CHR ''0''"
definition TypeSymlink :: char where "TypeSymlink = CHR ''2''"
definition TypeChar :: char where "TypeChar = CHR ''3''"
definition TypeBlock :: char where "TypeBlock = CHR ''4''"
definition TypeDir :: char where "TypeDir = CHR ''5''"
definition TypeFifo :: char where "TypeFifo = CHR ''6''"

type_synonym FileMode = "32 word"

text \<open>The bits of \<open>io/fs.FileMode\<close> (a \<open>uint32\<close>) that \<open>archive/tar\<close> sets.\<close>

definition ModeDir :: FileMode where "ModeDir = push_bit 31 1"
definition ModeSymlink :: FileMode where "ModeSymlink = push_bit 27 1"
definition ModeDevice :: FileMode where "ModeDevice = push_bit 26 1"
definition ModeNamedPipe :: FileMode where "ModeNamedPipe = push_bit 25 1"
definition ModeSocket :: FileMode where "ModeSocket = push_bit 24 1"
definition ModeSetuid :: FileMode where "ModeSetuid = push_bit 23 1"
definition ModeSetgid :: FileMode where "ModeSetgid = push_bit 22 1"
definition ModeCharDevice :: FileMode where "ModeCharDevice = push_bit 21 1"
definition ModeSticky :: FileMode where "ModeSticky = push_bit 20 1"

text \<open>
  \<open>header.FileInfo().Mode()\<close>: the permission bits of the recorded mode, the three
  special bits translated to their \<open>FileMode\<close> positions, and the file type, taken both
  from the type bits of the recorded mode and from the type flag. The octal constants of
  \<open>archive/tar\<close> are written in hexadecimal: \<open>0777 = 0x1FF\<close>, \<open>07777 = 0xFFF\<close>,
  \<open>c_ISUID = 04000 = 0x800\<close>, \<open>c_ISGID = 02000 = 0x400\<close>, \<open>c_ISVTX = 01000 = 0x200\<close>,
  \<open>c_ISDIR = 040000 = 0x4000\<close>, \<open>c_ISFIFO = 010000 = 0x1000\<close>, \<open>c_ISLNK = 0120000 = 0xA000\<close>,
  \<open>c_ISBLK = 060000 = 0x6000\<close>, \<open>c_ISCHR = 020000 = 0x2000\<close>, \<open>c_ISSOCK = 0140000 = 0xC000\<close>.
\<close>

definition modeTypeBits :: "FileMode \<Rightarrow> FileMode" where
  "modeTypeBits m =
     (if m = 0x4000 then ModeDir
      else if m = 0x1000 then ModeNamedPipe
      else if m = 0xA000 then ModeSymlink
      else if m = 0x6000 then ModeDevice
      else if m = 0x2000 then ModeDevice OR ModeCharDevice
      else if m = 0xC000 then ModeSocket
      else 0)"

definition typeflagBits :: "char \<Rightarrow> FileMode" where
  "typeflagBits t =
     (if t = TypeSymlink then ModeSymlink
      else if t = TypeChar then ModeDevice OR ModeCharDevice
      else if t = TypeBlock then ModeDevice
      else if t = TypeDir then ModeDir
      else if t = TypeFifo then ModeNamedPipe
      else 0)"

definition FileInfoMode :: "Header \<Rightarrow> FileMode" where
  "FileInfoMode h =
     (let m = (ucast (Mode h) :: FileMode);
          perm = m AND 0x1FF;
          suid = (if Mode h AND 0x800 \<noteq> 0 then ModeSetuid else 0);
          sgid = (if Mode h AND 0x400 \<noteq> 0 then ModeSetgid else 0);
          svtx = (if Mode h AND 0x200 \<noteq> 0 then ModeSticky else 0)
      in perm OR suid OR sgid OR svtx OR modeTypeBits (m AND NOT 0xFFF)
           OR typeflagBits (Typeflag h))"

section \<open>Errors, archives and the outside world\<close>

text \<open>
  A Go \<open>error\<close> whose identity the runner tests with \<open>errors.Is\<close>: \<open>io.EOF\<close>,
  \<open>context.Canceled\<close>, or any other error with its message. Errors that are only printed
  with \<open>%s\<close> are kept as their message.
\<close>

datatype err = EOF | Canceled | OtherErr string

fun Error :: "err \<Rightarrow> string" where
  "Error EOF = ''EOF''"
| "Error Canceled = ''context canceled''"
| "Error (OtherErr m) = m"

text \<open>
  The source archive is a byte buffer that \<open>tar.NewReader\<close> parses. The model takes the
  archive as the reader delivers it: the entries that \<open>Next\<close> returns one after the other,
  each with the bytes that reading the entry yields and the error that ends them
  (\<open>io.EOF\<close> for a complete entry), and the error that \<open>Next\<close> returns after the last
  entry (\<open>io.EOF\<close> for a well-formed archive).
\<close>

record TarEntry =
  header :: Header
  content :: string
  contentEnd :: err

record Archive =
  entries :: "TarEntry list"
  archiveEnd :: err

text \<open>
  Everything the daemon cannot decide by itself is a field of \<open>World\<close>: the outcome of each
  operating-system call (\<open>None\<close> is success, otherwise the message of the error; a failing
  write also says after how many bytes it fails), the outcome of the control-plane calls,
  the clock, and the quoting that \<open>fmt.Sprintf\<close> performs for the verb \<open>%q\<close>.
\<close>

record World =
  quote :: "string \<Rightarrow> string"
  mkdirAllErr :: "string \<Rightarrow> string option"
  openFileErr :: "string \<Rightarrow> string option"
  writeErr :: "string \<Rightarrow> (nat \<times> string) option"
  closeFileErr :: "string \<Rightarrow> string option"
  removeAllErr :: "string \<Rightarrow> string option"
  sendErr :: "nat \<Rightarrow> string option"
  completeJobErr :: "string option"
  nowMilli :: "nat \<Rightarrow> int"

section \<open>Messages and observable events\<close>

datatype LogLevel = TRACE | DEBUG | INFO | WARN | ERROR

datatype LogSource = PROVISIONER_DAEMON | PROVISIONER

record Log =
  Source :: LogSource
  Level :: LogLevel
  CreatedAt :: int
  Output :: string

record JobUpdate =
  updJobId :: string
  ProjectImportLogs :: "Log list"
  WorkspaceProvisionLogs :: "Log list"

datatype CompletedType =
    CompletedProjectImport "string list"
  | CompletedWorkspaceProvision string "string list"

record CompletedJob =
  cmpJobId :: string
  cmpType :: CompletedType

record CancelledJob =
  cnlJobId :: string
  cnlError :: string

record Provision_Request =
  Directory :: string
  ParameterValues :: "string list"
  State :: string

text \<open>
  What the daemon does to the outside, in the order it does it: calls to the control
  plane, calls to a provisioner, calls to the operating system, and the steps of the job
  slot that other goroutines can observe.
\<close>

datatype event =
    RpcAcquireJob
  | RpcUpdateJob JobUpdate
  | RpcCompleteJob CompletedJob
  | RpcCancelJob CancelledJob
  | ProvParse string
  | ProvProvision Provision_Request
  | ProvStreamClose
  | FsMkdirAll string FileMode
  | FsOpenFile string FileMode
  | FsWrite string string
  | FsCloseFile string
  | FsRemoveAll string
  | GoRunJob
  | JobContextCancel
  | StoreRunning bool
  | CloseDoneChan
  | CloseClosedChan
  | CloseContextCancel
  | ConnClose
  | UpdateStreamClose
  | Panic

section \<open>Archive extraction (the loop of \<open>runJob\<close>, lines 226 to 279)\<close>

definition maxFileSize :: nat where
  "maxFileSize = 2 ^ 20 * 10"

text \<open>
  \<open>io.CopyN(file, reader, n)\<close>: copy until \<open>n\<close> bytes are written or an error occurs. It
  returns \<open>nil\<close> exactly when \<open>n\<close> bytes were written; when the entry has fewer bytes the
  error is the one that ends the entry. A write can only fail when there is something to
  write.
\<close>

definition CopyN :: "World \<Rightarrow> string \<Rightarrow> TarEntry \<Rightarrow> nat \<Rightarrow> string \<times> err option" where
  "CopyN w path e n =
     (let chunk = take n (content e)
      in case (if chunk = [] then None else writeErr w path) of
           Some (k, m) \<Rightarrow> (take k chunk, Some (OtherErr m))
         | None \<Rightarrow> if length chunk = n then (chunk, None) else (chunk, Some (contentEnd e)))"

text \<open>
  One round of the loop for the entry \<open>e\<close>: the operating-system calls it makes, and the
  message passed to \<open>cancelActiveJob\<close> when the round ends the job.
\<close>

definition extractEntry :: "World \<Rightarrow> string \<Rightarrow> TarEntry \<Rightarrow> event list \<times> string option" where
  "extractEntry w workDir e =
     (let path = Join workDir (Name (header e))
      in if \<not> HasPrefix path (Clean workDir)
         then ([], Some ''tar attempts to target relative upper directory'')
         else
           let mode0 = FileInfoMode (header e);
               mode = (if mode0 = 0 then 0x180 else mode0)
           in if Typeflag (header e) = TypeDir then
                (case mkdirAllErr w path of
                   Some m \<Rightarrow> ([FsMkdirAll path mode],
                              Some (''mkdir '' @ quote w path @ '': '' @ m))
                 | None \<Rightarrow> ([FsMkdirAll path mode], None))
              else if Typeflag (header e) = TypeReg then
                (case openFileErr w path of
                   Some m \<Rightarrow> ([FsOpenFile path mode],
                              Some (''create file '' @ quote w path @ '': '' @ m))
                 | None \<Rightarrow>
                     (case CopyN w path e maxFileSize of
                        (written, cerr) \<Rightarrow>
                          (case (if cerr = Some EOF then None else cerr) of
                             Some ce \<Rightarrow> ([FsOpenFile path mode, FsWrite path written],
                                         Some (''copy file '' @ quote w path @ '': '' @ Error ce))
                           | None \<Rightarrow>
                               (case closeFileErr w path of
                                  Some m \<Rightarrow>
                                    ([FsOpenFile path mode, FsWrite path written, FsCloseFile path],
                                     Some (''close file '' @ quote w path @ '': '' @ m))
                                | None \<Rightarrow>
                                    ([FsOpenFile path mode, FsWrite path written, FsCloseFile path],
                                     None)))))
              else ([], None))"

fun extractEntries :: "World \<Rightarrow> string \<Rightarrow> TarEntry list \<Rightarrow> err \<Rightarrow> event list \<times> string option" where
  "extractEntries w workDir [] fin =
     ([], if fin = EOF then None else Some (''read project source archive: '' @ Error fin))"
| "extractEntries w workDir (e # es) fin =
     (case extractEntry w workDir e of
        (evs, Some m) \<Rightarrow> (evs, Some m)
      | (evs, None) \<Rightarrow>
          (case extractEntries w workDir es fin of (evs', r) \<Rightarrow> (evs @ evs', r)))"

definition unpackArchive :: "World \<Rightarrow> string \<Rightarrow> Archive \<Rightarrow> event list \<times> string option" where
  "unpackArchive w workDir a = extractEntries w workDir (entries a) (archiveEnd a)"

section \<open>The daemon\<close>

text \<open>
  The typed payload of an acquired job. \<open>OtherType\<close> carries the name that
  \<open>reflect.TypeOf\<close> prints for a payload of another kind; \<open>NilType\<close> is the payload that is
  not set, for which \<open>reflect.TypeOf(...).String()\<close> panics. The descriptive fields of a
  job, which the runner only logs, are left out.
\<close>

datatype JobType =
    ProjectImport
  | WorkspaceProvision "string list" string
  | OtherType string
  | NilType

record AcquiredJob =
  JobId :: string
  Provisioner :: string
  ProjectSourceArchive :: Archive
  Type :: JobType

text \<open>
  A message received from a provisioner stream, with \<open>OtherMsg\<close> and \<open>NilMsg\<close> as for
  the job payload. A stream is the messages that \<open>Recv\<close> returns one after the other and
  the message of the error that \<open>Recv\<close> returns after them.
\<close>

datatype 'c Response =
    LogMsg LogLevel string
  | CompleteMsg 'c
  | OtherMsg string
  | NilMsg

type_synonym 'c Stream = "'c Response list \<times> string"

record ProvisionerClient =
  Parse :: "string \<Rightarrow> string + (string list) Stream"
  Provision :: "Provision_Request \<Rightarrow> string + (string \<times> string list) Stream"

record Options =
  Provisioners :: "string \<Rightarrow> ProvisionerClient option"
  WorkDirectory :: string

record Chan =
  chanId :: nat
  chanClosed :: bool

text \<open>
  The fields of \<open>provisionerDaemon\<close> that the job slot and \<open>Close\<close> use. A context is
  its cancel handle (a number, fresh for every job) and whether it is done; a channel is
  a number and whether it is closed. \<open>sentinelWaiting\<close> says that the cleanup goroutine of
  \<open>runJob\<close> has been started and has not run yet, \<open>panicked\<close> that the process has died
  of a panic, and \<open>trace\<close> collects the events. The mutexes are not modelled: every
  function below runs from its first line to its last without interleaving.
\<close>

record provisionerDaemon =
  opts :: Options
  hasUpdateStream :: bool
  closed :: bool
  closeError :: "string option"
  closeContextDone :: bool
  acquiredJob :: "AcquiredJob option"
  acquiredJobCancel :: "nat option"
  acquiredJobCancelled :: bool
  acquiredJobRunning :: bool
  acquiredJobDone :: "Chan option"
  jobContextDone :: bool
  sentinelWaiting :: bool
  nextId :: nat
  panicked :: bool
  trace :: "event list"

definition emit :: "event list \<Rightarrow> provisionerDaemon \<Rightarrow> provisionerDaemon" where
  "emit evs p = p\<lparr>trace := trace p @ evs\<rparr>"

definition goPanic :: "provisionerDaemon \<Rightarrow> provisionerDaemon" where
  "goPanic p = p\<lparr>panicked := True, trace := trace p @ [Panic]\<rparr>"

definition isRunningJob :: "provisionerDaemon \<Rightarrow> bool" where
  "isRunningJob p = acquiredJobRunning p"

definition isClosed :: "provisionerDaemon \<Rightarrow> bool" where
  "isClosed p = closed p"

text \<open>
  \<open>cancelActiveJob\<close> (lines 435 to 458). The outcome of the \<open>CancelJob\<close> call is only
  logged, so it is not an input.
\<close>

definition cancelActiveJob :: "string \<Rightarrow> provisionerDaemon \<Rightarrow> provisionerDaemon" where
  "cancelActiveJob errMsg p =
     (if \<not> isRunningJob p then p
      else if acquiredJobCancelled p then p
      else
        let p1 = p\<lparr>acquiredJobCancelled := True\<rparr>
        in case acquiredJobCancel p1 of
             None \<Rightarrow> goPanic p1
           | Some h \<Rightarrow>
               (let p2 = emit [JobContextCancel] (p1\<lparr>jobContextDone := True\<rparr>)
                in (case acquiredJob p2 of
                      None \<Rightarrow> goPanic p2
                    | Some job \<Rightarrow>
                        emit [RpcCancelJob \<lparr>cnlJobId = JobId job,
                                cnlError = ''provisioner daemon: '' @ errMsg\<rparr>] p2)))"

text \<open>
  \<open>acquireJob\<close> (lines 150 to 186), given what the \<open>AcquireJob\<close> call returns if it is
  made. The generated client returns a nil job together with an error.
\<close>

datatype AcquireResult = AcquireErr err | AcquireOk AcquiredJob

definition acquireJob :: "AcquireResult \<Rightarrow> provisionerDaemon \<Rightarrow> provisionerDaemon" where
  "acquireJob r p =
     (if isRunningJob p then p
      else
        let p1 = emit [RpcAcquireJob] p
        in case r of
             AcquireErr e \<Rightarrow> p1\<lparr>acquiredJob := None\<rparr>
           | AcquireOk job \<Rightarrow>
               let p2 = p1\<lparr>acquiredJob := Some job\<rparr>
               in if isClosed p2 then p2
                  else if JobId job = [] then p2
                  else
                    emit [GoRunJob]
                      (p2\<lparr>acquiredJobCancel := Some (nextId p2),
                          jobContextDone := closeContextDone p2,
                          acquiredJobCancelled := False,
                          acquiredJobRunning := True,
                          acquiredJobDone := Some \<lparr>chanId = Suc (nextId p2), chanClosed = False\<rparr>,
                          nextId := Suc (Suc (nextId p2))\<rparr>))"

text \<open>
  The stream pump of \<open>runProjectImport\<close> (lines 314 to 361); \<open>n\<close> counts the updates
  sent so far for this job.
\<close>

fun parsePump :: "World \<Rightarrow> nat \<Rightarrow> (string list) Response list \<Rightarrow> string \<Rightarrow>
    provisionerDaemon \<Rightarrow> provisionerDaemon" where
  "parsePump w n [] fin p = cancelActiveJob (''recv parse source: '' @ fin) p"
| "parsePump w n (LogMsg lvl out # ms) fin p =
     (case acquiredJob p of
        None \<Rightarrow> goPanic p
      | Some job \<Rightarrow>
          (let p1 = emit [RpcUpdateJob \<lparr>updJobId = JobId job,
                     ProjectImportLogs = [\<lparr>Source = PROVISIONER, Level = lvl,
                                           CreatedAt = nowMilli w n, Output = out\<rparr>],
                     WorkspaceProvisionLogs = []\<rparr>] p
           in (case sendErr w n of
                Some m \<Rightarrow> cancelActiveJob (''update job: '' @ m) p1
              | None \<Rightarrow> parsePump w (Suc n) ms fin p1)))"
| "parsePump w n (CompleteMsg schemas # ms) fin p =
     (case acquiredJob p of
        None \<Rightarrow> goPanic p
      | Some job \<Rightarrow>
          (let p1 = emit [RpcCompleteJob \<lparr>cmpJobId = JobId job,
                     cmpType = CompletedProjectImport schemas\<rparr>] p
           in (case completeJobErr w of
                Some m \<Rightarrow> cancelActiveJob (''complete job: '' @ m) p1
              | None \<Rightarrow> p1)))"
| "parsePump w n (OtherMsg t # ms) fin p =
     cancelActiveJob (''invalid message type '' @ quote w t @ '' received from provisioner'') p"
| "parsePump w n (NilMsg # ms) fin p = goPanic p"

definition runProjectImport :: "World \<Rightarrow> ProvisionerClient \<Rightarrow> provisionerDaemon \<Rightarrow>
    provisionerDaemon" where
  "runProjectImport w provisioner p =
     (let dir = WorkDirectory (opts p); p1 = emit [ProvParse dir] p
      in case Parse provisioner dir of
           Inl m \<Rightarrow> cancelActiveJob (''parse source: '' @ m) p1
         | Inr (ms, fin) \<Rightarrow> emit [ProvStreamClose] (parsePump w 0 ms fin p1))"

text \<open>The stream pump of \<open>runWorkspaceProvision\<close> (lines 376 to 432).\<close>

fun provisionPump :: "World \<Rightarrow> nat \<Rightarrow> (string \<times> string list) Response list \<Rightarrow> string \<Rightarrow>
    provisionerDaemon \<Rightarrow> provisionerDaemon" where
  "provisionPump w n [] fin p = cancelActiveJob (''recv workspace provision: '' @ fin) p"
| "provisionPump w n (LogMsg lvl out # ms) fin p =
     (case acquiredJob p of
        None \<Rightarrow> goPanic p
      | Some job \<Rightarrow>
          (let p1 = emit [RpcUpdateJob \<lparr>updJobId = JobId job,
                     ProjectImportLogs = [],
                     WorkspaceProvisionLogs = [\<lparr>Source = PROVISIONER, Level = lvl,
                                                CreatedAt = nowMilli w n, Output = out\<rparr>]\<rparr>] p
           in (case sendErr w n of
                Some m \<Rightarrow> cancelActiveJob (''send job update: '' @ m) p1
              | None \<Rightarrow> provisionPump w (Suc n) ms fin p1)))"
| "provisionPump w n (CompleteMsg (st, resources) # ms) fin p =
     (case acquiredJob p of
        None \<Rightarrow> goPanic p
      | Some job \<Rightarrow>
          (let p1 = emit [RpcCompleteJob \<lparr>cmpJobId = JobId job,
                     cmpType = CompletedWorkspaceProvision st resources\<rparr>] p
           in (case completeJobErr w of
                Some m \<Rightarrow> cancelActiveJob (''complete job: '' @ m) p1
              | None \<Rightarrow> p1)))"
| "provisionPump w n (OtherMsg t # ms) fin p =
     cancelActiveJob (''invalid message type '' @ quote w t @ '' received from provisioner'') p"
| "provisionPump w n (NilMsg # ms) fin p = goPanic p"

definition runWorkspaceProvision :: "World \<Rightarrow> ProvisionerClient \<Rightarrow> string list \<Rightarrow> string \<Rightarrow>
    provisionerDaemon \<Rightarrow> provisionerDaemon" where
  "runWorkspaceProvision w provisioner params st p =
     (let req = \<lparr>Directory = WorkDirectory (opts p), ParameterValues = params, State = st\<rparr>;
          p1 = emit [ProvProvision req] p
      in case Provision provisioner req of
           Inl m \<Rightarrow> cancelActiveJob (''provision: '' @ m) p1
         | Inr (ms, fin) \<Rightarrow> emit [ProvStreamClose] (provisionPump w 0 ms fin p1))"

text \<open>
  The last two lines of \<open>runJob\<close>: after a dispatch has returned, the per-job context is
  cancelled.
\<close>

definition finishJob :: "provisionerDaemon \<Rightarrow> provisionerDaemon" where
  "finishJob p =
     (if panicked p then p
      else case acquiredJobCancel p of
             None \<Rightarrow> goPanic p
           | Some h \<Rightarrow> emit [JobContextCancel] (p\<lparr>jobContextDone := True\<rparr>))"

text \<open>
  The body of \<open>runJob\<close> (lines 192 to 303) without its cleanup goroutine, which it only
  starts: \<open>cleanupSentinel\<close> below is that goroutine.
\<close>

definition runJob :: "World \<Rightarrow> provisionerDaemon \<Rightarrow> provisionerDaemon" where
  "runJob w p0 =
     (let p = p0\<lparr>sentinelWaiting := True\<rparr>
      in case acquiredJob p of
           None \<Rightarrow> goPanic p
         | Some job \<Rightarrow>
             (case Provisioners (opts p) (Provisioner job) of
                None \<Rightarrow>
                  cancelActiveJob
                    (''provisioner '' @ quote w (Provisioner job) @ '' not registered'') p
              | Some provisioner \<Rightarrow>
                  (let dir = WorkDirectory (opts p); p1 = emit [FsMkdirAll dir 0x180] p
                   in (case mkdirAllErr w dir of
                         Some m \<Rightarrow>
                           cancelActiveJob
                             (''create work directory '' @ quote w dir @ '': '' @ m) p1
                       | None \<Rightarrow>
                           (case unpackArchive w dir (ProjectSourceArchive job) of
                              (evs, Some m) \<Rightarrow> cancelActiveJob m (emit evs p1)
                            | (evs, None) \<Rightarrow>
                                (let p2 = emit evs p1
                                 in (case Type job of
                                       ProjectImport \<Rightarrow>
                                         finishJob (runProjectImport w provisioner p2)
                                     | WorkspaceProvision params st \<Rightarrow>
                                         finishJob
                                           (runWorkspaceProvision w provisioner params st p2)
                                     | OtherType t \<Rightarrow>
                                         cancelActiveJob
                                           (''unknown job type '' @ quote w t @
                                            ''; ensure your provisioner daemon is up-to-date'')
                                           p2
                                     | NilType \<Rightarrow> goPanic p2)))))))"

text \<open>
  The cleanup goroutine of \<open>runJob\<close> (lines 193 to 210). It waits until the daemon is
  closed or the per-job context is done; until then, and when it has not been started or
  has already run, the function leaves the daemon as it is.
\<close>

definition closeDone :: "provisionerDaemon \<Rightarrow> provisionerDaemon" where
  "closeDone p =
     (case acquiredJobDone p of
        None \<Rightarrow> goPanic p
      | Some c \<Rightarrow>
          if chanClosed c then goPanic p
          else emit [CloseDoneChan] (p\<lparr>acquiredJobDone := Some (c\<lparr>chanClosed := True\<rparr>)\<rparr>))"

definition sentinelReady :: "provisionerDaemon \<Rightarrow> bool" where
  "sentinelReady p = (\<not> panicked p \<and> sentinelWaiting p \<and> (closed p \<or> jobContextDone p))"

definition cleanupSentinel :: "World \<Rightarrow> provisionerDaemon \<Rightarrow> provisionerDaemon" where
  "cleanupSentinel w p =
     (if \<not> sentinelReady p then p
      else
        let dir = WorkDirectory (opts p);
            p1 = emit [FsRemoveAll dir] (p\<lparr>sentinelWaiting := False\<rparr>)
        in case removeAllErr w dir of
             Some m \<Rightarrow>
               cancelActiveJob
                 (''remove all from '' @ quote w dir @ '' directory: '' @ m) p1
           | None \<Rightarrow>
               closeDone (emit [StoreRunning False] (p1\<lparr>acquiredJobRunning := False\<rparr>)))"

text \<open>
  \<open>closeWithError\<close> (lines 476 to 505). The receive from \<open>acquiredJobDone\<close> returns when
  the channel is closed; the only goroutine that closes it is the cleanup goroutine, so
  the receive lets that goroutine run if it can. When the channel is still open afterwards
  the call is \<open>Blocked\<close>, and the daemon is in the state in which the call waits: it has sent
  its cancellation and done nothing of what follows the receive. A call that is made, or
  made again, once the channel has been closed and the slot is no longer running does what
  a waiting call does when it wakes up.
\<close>

datatype closeResult = Returned "string option" | Blocked

definition doneIsClosed :: "provisionerDaemon \<Rightarrow> bool" where
  "doneIsClosed p = (case acquiredJobDone p of None \<Rightarrow> False | Some c \<Rightarrow> chanClosed c)"

definition awaitDone :: "World \<Rightarrow> provisionerDaemon \<Rightarrow> provisionerDaemon" where
  "awaitDone w p = (if doneIsClosed p then p else cleanupSentinel w p)"

definition closeWithError :: "World \<Rightarrow> string option \<Rightarrow> provisionerDaemon \<Rightarrow>
    closeResult \<times> provisionerDaemon" where
  "closeWithError w e p =
     (if isClosed p then (Returned (closeError p), p)
      else
        let errMsg = (case e of None \<Rightarrow> ''provisioner daemon was shutdown gracefully''
                               | Some m \<Rightarrow> m);
            p1 = (if isRunningJob p \<and> \<not> acquiredJobCancelled p
                  then cancelActiveJob errMsg p else p);
            p2 = (if isRunningJob p \<and> \<not> panicked p1 then awaitDone w p1 else p1)
        in if isRunningJob p \<and> (panicked p2 \<or> \<not> doneIsClosed p2) then (Blocked, p2)
           else
             let p3 = emit [CloseClosedChan, CloseContextCancel]
                        (p2\<lparr>closeError := e, closed := True, closeContextDone := True,
                            jobContextDone := True\<rparr>)
             in (Returned e,
                 if hasUpdateStream p3 then emit [ConnClose, UpdateStreamClose] p3 else p3))"

definition Close :: "World \<Rightarrow> provisionerDaemon \<Rightarrow> closeResult \<times> provisionerDaemon" where
  "Close w p = closeWithError w None p"

text \<open>The daemon as \<open>New\<close> builds it, once \<open>connect\<close> has opened the update stream.\<close>

definition newDaemon :: "Options \<Rightarrow> provisionerDaemon" where
  "newDaemon os =
     \<lparr>opts = os, hasUpdateStream = True, closed = False, closeError = None,
      closeContextDone = False, acquiredJob = None, acquiredJobCancel = None,
      acquiredJobCancelled = False, acquiredJobRunning = False, acquiredJobDone = None,
      jobContextDone = False, sentinelWaiting = False, nextId = 0, panicked = False,
      trace = []\<rparr>"

section \<open>Vocabulary of the properties\<close>

text \<open>
  The terminal calls of a job are \<open>CompleteJob\<close> and \<open>CancelJob\<close>; \<open>terminals\<close> keeps
  them, in order, from a list of events.
\<close>

fun isTerminal :: "event \<Rightarrow> bool" where
  "isTerminal (RpcCompleteJob c) = True"
| "isTerminal (RpcCancelJob c) = True"
| "isTerminal e = False"

definition terminals :: "event list \<Rightarrow> event list" where
  "terminals evs = filter isTerminal evs"


fun isCancel :: "event \<Rightarrow> bool" where
  "isCancel (RpcCancelJob c) = True"
| "isCancel e = False"


text \<open>The number of bytes that an event writes to disk.\<close>

fun writtenBytes :: "event \<Rightarrow> nat" where
  "writtenBytes (FsWrite path bytes) = length bytes"
| "writtenBytes e = 0"

text \<open>
  The job slot as \<open>acquireJob\<close> leaves it when it starts a runner: running, not
  cancelled, with a cancel handle and a job.
\<close>

definition jobActive :: "provisionerDaemon \<Rightarrow> bool" where
  "jobActive p =
     (acquiredJobRunning p \<and> \<not> acquiredJobCancelled p \<and> acquiredJobCancel p \<noteq> None
      \<and> acquiredJob p \<noteq> None)"



text \<open>
  The entry points through which the daemon can act after a call of \<open>acquireJob\<close>: the
  acquire ticker, a cancellation by a runner that is still returning, \<open>Close\<close>, and the
  cleanup goroutine. A \<open>Close\<close> that blocks leaves the daemon in the state in which it waits.
\<close>

datatype call =
    CallAcquire AcquireResult
  | CallCancel string
  | CallClose "string option"
  | CallCleanup

fun applyCall :: "World \<Rightarrow> provisionerDaemon \<Rightarrow> call \<Rightarrow> provisionerDaemon" where
  "applyCall w p (CallAcquire r) = acquireJob r p"
| "applyCall w p (CallCancel m) = cancelActiveJob m p"
| "applyCall w p (CallClose e) = snd (closeWithError w e p)"
| "applyCall w p CallCleanup = cleanupSentinel w p"

fun startsOrEndsJob :: "event \<Rightarrow> bool" where
  "startsOrEndsJob GoRunJob = True"
| "startsOrEndsJob (StoreRunning b) = b"
| "startsOrEndsJob e = isTerminal e"

section \<open>Concrete inputs\<close>

text \<open>
  A world in which no call fails, the archive entries, the provisioner and the jobs of
  the repository's tests (\<open>TestProvisionerd\<close>): a provisioner registered as
  \<open>someprovisioner\<close>, a job \<open>test\<close> whose archive holds one regular file written by
  \<open>createTar\<close> with no mode.
\<close>

definition exampleWorld :: World where
  "exampleWorld =
     \<lparr>quote = (\<lambda>s. CHR 0x22 # s @ [CHR 0x22]),
      mkdirAllErr = (\<lambda>path. None), openFileErr = (\<lambda>path. None),
      writeErr = (\<lambda>path. None), closeFileErr = (\<lambda>path. None),
      removeAllErr = (\<lambda>path. None), sendErr = (\<lambda>n. None),
      completeJobErr = None, nowMilli = (\<lambda>n. 0)\<rparr>"

definition regularFile :: "string \<Rightarrow> string \<Rightarrow> TarEntry" where
  "regularFile n c =
     \<lparr>header = \<lparr>Name = n, Mode = 0, Typeflag = TypeReg\<rparr>, content = c, contentEnd = EOF\<rparr>"

definition directoryEntry :: "string \<Rightarrow> TarEntry" where
  "directoryEntry n =
     \<lparr>header = \<lparr>Name = n, Mode = 0, Typeflag = TypeDir\<rparr>, content = [], contentEnd = EOF\<rparr>"

definition exampleProvisioner :: ProvisionerClient where
  "exampleProvisioner =
     \<lparr>Parse = (\<lambda>dir. Inr ([LogMsg INFO ''hello'', CompleteMsg []], ''EOF'')),
      Provision = (\<lambda>req. Inr ([LogMsg DEBUG ''wow'', CompleteMsg ([], [])], ''EOF''))\<rparr>"

definition exampleOptions :: Options where
  "exampleOptions =
     \<lparr>Provisioners = (\<lambda>kind. if kind = ''someprovisioner'' then Some exampleProvisioner
                               else None),
      WorkDirectory = ''/tmp/work''\<rparr>"

definition exampleJob :: "TarEntry list \<Rightarrow> AcquiredJob" where
  "exampleJob es =
     \<lparr>JobId = ''test'', Provisioner = ''someprovisioner'',
      ProjectSourceArchive = \<lparr>entries = es, archiveEnd = EOF\<rparr>, Type = ProjectImport\<rparr>"

definition acquired :: "AcquiredJob \<Rightarrow> provisionerDaemon" where
  "acquired job = acquireJob (AcquireOk job) (newDaemon exampleOptions)"


definition undeletableWorld :: World where
  "undeletableWorld = exampleWorld\<lparr>removeAllErr := (\<lambda>path. Some ''permission denied'')\<rparr>"

definition emptyJob :: AcquiredJob where
  "emptyJob =
     \<lparr>JobId = [], Provisioner = [], ProjectSourceArchive = \<lparr>entries = [], archiveEnd = EOF\<rparr>,
      Type = NilType\<rparr>"

definition closedDaemon :: provisionerDaemon where
  "closedDaemon = applyCall exampleWorld (newDaemon exampleOptions) (CallClose None)"

section \<open>Unfolding and simplification rules\<close>

lemmas path_defs = Join_def Clean_def cleanElems_def cleanStep_def isRooted_def
lemmas mode_defs = FileInfoMode_def modeTypeBits_def typeflagBits_def TypeDir_def
  TypeSymlink_def TypeChar_def TypeBlock_def TypeFifo_def TypeReg_def ModeDir_def
  ModeSymlink_def ModeDevice_def ModeNamedPipe_def ModeSocket_def ModeSetuid_def
  ModeSetgid_def ModeCharDevice_def ModeSticky_def
lemmas example_defs = exampleWorld_def regularFile_def directoryEntry_def
  exampleProvisioner_def exampleOptions_def exampleJob_def acquired_def newDaemon_def
lemmas daemon_defs = acquireJob_def cancelActiveJob_def isRunningJob_def isClosed_def
  emit_def goPanic_def finishJob_def
lemmas extract_defs = unpackArchive_def extractEntry_def CopyN_def maxFileSize_def

lemmas run_defs = runJob_def runProjectImport_def runWorkspaceProvision_def

lemmas close_defs = closeWithError_def Close_def awaitDone_def doneIsClosed_def
  cleanupSentinel_def sentinelReady_def closeDone_def

lemma terminals_append [simp]: "terminals (xs @ ys) = terminals xs @ terminals ys"
  by (simp add: terminals_def)

lemma terminals_Nil [simp]: "terminals [] = []"
  by (simp add: terminals_def)

lemma terminals_Cons [simp]:
  "terminals (e # es) = (if isTerminal e then e # terminals es else terminals es)"
  by (simp add: terminals_def)

lemma jobActive_emit [simp]: "jobActive (emit evs p) = jobActive p"
  by (simp add: jobActive_def emit_def)

lemma trace_emit [simp]: "trace (emit evs p) = trace p @ evs"
  by (simp add: emit_def)

lemma acquiredJob_emit [simp]: "acquiredJob (emit evs p) = acquiredJob p"
  by (simp add: emit_def)

lemma panicked_emit [simp]: "panicked (emit evs p) = panicked p"
  by (simp add: emit_def)

lemma cancelActiveJob_active:
  assumes "jobActive p" and "acquiredJob p = Some job"
  shows "cancelActiveJob m p =
           p\<lparr>acquiredJobCancelled := True, jobContextDone := True,
             trace := trace p @ [JobContextCancel,
               RpcCancelJob \<lparr>cnlJobId = JobId job, cnlError = ''provisioner daemon: '' @ m\<rparr>]\<rparr>"
  using assms by (auto simp: cancelActiveJob_def jobActive_def isRunningJob_def emit_def Let_def)

section \<open>Archive extraction\<close>

lemma extractEntries_append:
  "extractEntries w d (xs @ ys) fin =
     (case extractEntries w d xs EOF of
        (evs, Some m) \<Rightarrow> (evs, Some m)
      | (evs, None) \<Rightarrow> (case extractEntries w d ys fin of (evs', r) \<Rightarrow> (evs @ evs', r)))"
  by (induction xs) (auto split: prod.splits option.splits)

lemma extractEntry_upper:
  "\<not> HasPrefix (Join d (Name (header e))) (Clean d) \<Longrightarrow>
   extractEntry w d e = ([], Some ''tar attempts to target relative upper directory'')"
  by (simp add: extractEntry_def)

lemma CopyN_length: "length (fst (CopyN w path e n)) \<le> n"
  by (auto simp: CopyN_def Let_def split: option.splits prod.splits)

lemma extractEntry_regular:
  assumes "Typeflag (header e) = TypeReg"
    and "HasPrefix (Join d (Name (header e))) (Clean d)"
    and "openFileErr w (Join d (Name (header e))) = None"
    and "writeErr w (Join d (Name (header e))) = None"
    and "closeFileErr w (Join d (Name (header e))) = None"
    and "length (content e) < maxFileSize \<longrightarrow> contentEnd e = EOF"
  shows "extractEntry w d e =
           ([FsOpenFile (Join d (Name (header e)))
               (if FileInfoMode (header e) = 0 then 0x180 else FileInfoMode (header e)),
             FsWrite (Join d (Name (header e))) (take maxFileSize (content e)),
             FsCloseFile (Join d (Name (header e)))], None)"
  using assms
  by (auto simp: extractEntry_def CopyN_def Let_def TypeReg_def TypeDir_def)

text \<open>
  Claim C1. Extraction never creates a file or directory outside the work directory: every
  path the extractor produces lies under \<open>WorkDirectory\<close>.

  The runner compares strings, not path elements. With the work directory \<open>/tmp/work\<close>
  the entry \<open>../work2/evil.txt\<close> is joined and cleaned to \<open>/tmp/work2/evil.txt\<close>, which
  begins with the characters \<open>/tmp/work\<close> and so passes the check of line 237, although
  it is a path of the sibling directory \<open>/tmp/work2\<close>. The file is created and written
  there, and the job goes on to completion. The theorem evaluates the runner on that
  job.
\<close>

theorem prefix_check_admits_sibling_directory:
  "HasPrefix (Join ''/tmp/work'' ''../work2/evil.txt'') (Clean ''/tmp/work'')
   \<and> \<not> pathWithin ''/tmp/work'' (Join ''/tmp/work'' ''../work2/evil.txt'')
   \<and> trace (runJob exampleWorld
        (acquired (exampleJob [regularFile ''../work2/evil.txt'' ''content'']))) =
     [RpcAcquireJob, GoRunJob, FsMkdirAll ''/tmp/work'' 0x180,
      FsOpenFile ''/tmp/work2/evil.txt'' 0x180,
      FsWrite ''/tmp/work2/evil.txt'' ''content'',
      FsCloseFile ''/tmp/work2/evil.txt'', ProvParse ''/tmp/work'',
      RpcUpdateJob \<lparr>updJobId = ''test'',
        ProjectImportLogs = [\<lparr>Source = PROVISIONER, Level = INFO, CreatedAt = 0,
                               Output = ''hello''\<rparr>],
        WorkspaceProvisionLogs = []\<rparr>,
      RpcCompleteJob \<lparr>cmpJobId = ''test'', cmpType = CompletedProjectImport []\<rparr>,
      ProvStreamClose, JobContextCancel]"
  by (simp add: example_defs daemon_defs run_defs extract_defs path_defs mode_defs Let_def
      pathWithin_def)

text \<open>
  Claim C4. For every tar entry the candidate path is the work directory joined with
  the entry name, cleaned; when the cleaned work directory is not a prefix of the
  candidate, extraction fails with the "relative upper directory" error, the job is
  cancelled, and no file is created for that entry or any later entry.

  For a job in the state in which \<open>acquireJob\<close> starts the runner, whose provisioner is
  registered and whose work directory could be created: if the entries \<open>pre\<close> before \<open>e\<close>
  were extracted with the events \<open>evs\<close> and \<open>e\<close> fails the prefix test, then the round for
  \<open>e\<close> makes no operating-system call, the extraction ends with that error, and the runner
  has made exactly the calls for the work directory and for \<open>pre\<close> before it cancels the
  context and sends \<open>CancelJob\<close> with the error: nothing for \<open>e\<close>, nothing for \<open>post\<close>.
\<close>

theorem upper_directory_entry_cancels_job:
  assumes "jobActive p" and "acquiredJob p = Some job"
    and "Provisioners (opts p) (Provisioner job) = Some c"
    and "mkdirAllErr w (WorkDirectory (opts p)) = None"
    and "entries (ProjectSourceArchive job) = pre @ e # post"
    and "extractEntries w (WorkDirectory (opts p)) pre EOF = (evs, None)"
    and "\<not> HasPrefix (Join (WorkDirectory (opts p)) (Name (header e)))
             (Clean (WorkDirectory (opts p)))"
  shows "extractEntry w (WorkDirectory (opts p)) e =
           ([], Some ''tar attempts to target relative upper directory'')
       \<and> unpackArchive w (WorkDirectory (opts p)) (ProjectSourceArchive job) =
           (evs, Some ''tar attempts to target relative upper directory'')
       \<and> trace (runJob w p) =
           trace p @ FsMkdirAll (WorkDirectory (opts p)) 0x180 # evs @
             [JobContextCancel,
              RpcCancelJob \<lparr>cnlJobId = JobId job,
                cnlError = ''provisioner daemon: tar attempts to target relative upper directory''\<rparr>]"
proof -
  let ?d = "WorkDirectory (opts p)"
  let ?m = "''tar attempts to target relative upper directory''"
  have one: "extractEntry w ?d e = ([], Some ?m)"
    using assms(7) by (rule extractEntry_upper)
  have all: "unpackArchive w ?d (ProjectSourceArchive job) = (evs, Some ?m)"
    using assms(5,6) one by (simp add: unpackArchive_def extractEntries_append)
  let ?q = "emit evs (emit [FsMkdirAll ?d 0x180] (p\<lparr>sentinelWaiting := True\<rparr>))"
  have act: "jobActive ?q" "acquiredJob ?q = Some job"
    using assms(1,2) by (simp_all add: jobActive_def emit_def)
  have "runJob w p = cancelActiveJob ?m ?q"
    using assms(2,3,4) all by (simp add: runJob_def Let_def emit_def)
  then have "trace (runJob w p) = trace ?q @ [JobContextCancel,
      RpcCancelJob \<lparr>cnlJobId = JobId job, cnlError = ''provisioner daemon: '' @ ?m\<rparr>]"
    by (simp add: cancelActiveJob_active [OF act])
  then show ?thesis using one all by (simp add: emit_def)
qed

text \<open>
  The theorem at the archive \<open>a.txt\<close>, \<open>../../../etc/passwd\<close>, \<open>b.txt\<close> of the test job:
  \<open>a.txt\<close> is written, then the job is cancelled.
\<close>

theorem upper_directory_entry_cancels_job_witness:
  "trace (runJob exampleWorld (acquired (exampleJob
      [regularFile ''a.txt'' ''content'', regularFile ''../../../etc/passwd'' ''content'',
       regularFile ''b.txt'' ''content'']))) =
     [RpcAcquireJob, GoRunJob, FsMkdirAll ''/tmp/work'' 0x180,
      FsOpenFile ''/tmp/work/a.txt'' 0x180, FsWrite ''/tmp/work/a.txt'' ''content'',
      FsCloseFile ''/tmp/work/a.txt'', JobContextCancel,
      RpcCancelJob \<lparr>cnlJobId = ''test'',
        cnlError = ''provisioner daemon: tar attempts to target relative upper directory''\<rparr>]"
proof -
  let ?job = "exampleJob [regularFile ''a.txt'' ''content'',
    regularFile ''../../../etc/passwd'' ''content'', regularFile ''b.txt'' ''content'']"
  have 1: "jobActive (acquired ?job)"
    by (simp add: jobActive_def example_defs daemon_defs)
  have 2: "acquiredJob (acquired ?job) = Some ?job"
    by (simp add: example_defs daemon_defs)
  have 3: "Provisioners (opts (acquired ?job)) (Provisioner ?job) = Some exampleProvisioner"
    by (simp add: example_defs daemon_defs)
  have 4: "mkdirAllErr exampleWorld (WorkDirectory (opts (acquired ?job))) = None"
    by (simp add: example_defs)
  have 5: "entries (ProjectSourceArchive ?job) =
      [regularFile ''a.txt'' ''content''] @ regularFile ''../../../etc/passwd'' ''content''
        # [regularFile ''b.txt'' ''content'']"
    by (simp add: example_defs)
  have wd: "WorkDirectory (opts (acquired ?job)) = ''/tmp/work''"
    by (simp add: example_defs daemon_defs)
  have 6: "extractEntries exampleWorld (WorkDirectory (opts (acquired ?job)))
      [regularFile ''a.txt'' ''content''] EOF =
      ([FsOpenFile ''/tmp/work/a.txt'' 0x180, FsWrite ''/tmp/work/a.txt'' ''content'',
        FsCloseFile ''/tmp/work/a.txt''], None)"
    unfolding wd by (simp add: extract_defs example_defs path_defs mode_defs Let_def)
  have 7: "\<not> HasPrefix (Join (WorkDirectory (opts (acquired ?job)))
      (Name (header (regularFile ''../../../etc/passwd'' ''content''))))
      (Clean (WorkDirectory (opts (acquired ?job))))"
    unfolding wd by (simp add: example_defs path_defs)
  have tr: "trace (acquired ?job) = [RpcAcquireJob, GoRunJob]"
    by (simp add: example_defs daemon_defs)
  from upper_directory_entry_cancels_job [OF 1 2 3 4 5 6 7] show ?thesis
    unfolding wd tr by (simp add: exampleJob_def)
qed

text \<open>
  Claim C5, as it fails. The claim says that an entry whose data exceeds the cap of
  10 MiB is a fatal job error. \<open>io.CopyN\<close> returns \<open>nil\<close> once it has copied the cap,
  whatever is left in the entry, so an entry of 10 MiB and one byte is cut to 10 MiB
  without an error and the job completes.
\<close>

theorem oversized_entry_is_extracted:
  "10 * 2 ^ 20 < length (content (regularFile ''big.bin'' (replicate 10485761 (CHR ''a''))))
   \<and> trace (runJob exampleWorld
        (acquired (exampleJob [regularFile ''big.bin'' (replicate 10485761 (CHR ''a''))]))) =
     [RpcAcquireJob, GoRunJob, FsMkdirAll ''/tmp/work'' 0x180,
      FsOpenFile ''/tmp/work/big.bin'' 0x180,
      FsWrite ''/tmp/work/big.bin'' (replicate 10485760 (CHR ''a'')),
      FsCloseFile ''/tmp/work/big.bin'', ProvParse ''/tmp/work'',
      RpcUpdateJob \<lparr>updJobId = ''test'',
        ProjectImportLogs = [\<lparr>Source = PROVISIONER, Level = INFO, CreatedAt = 0,
                               Output = ''hello''\<rparr>],
        WorkspaceProvisionLogs = []\<rparr>,
      RpcCompleteJob \<lparr>cmpJobId = ''test'', cmpType = CompletedProjectImport []\<rparr>,
      ProvStreamClose, JobContextCancel]"
  by (simp add: example_defs daemon_defs run_defs extract_defs path_defs mode_defs Let_def)

lemma extractEntry_written: "sum_list (map writtenBytes (fst (extractEntry w d e))) \<le> maxFileSize"
  using CopyN_length [of w "Join d (Name (header e))" e maxFileSize]
  by (auto simp: extractEntry_def Let_def split: if_splits option.splits prod.splits)

text \<open>
  Claim C5, amended. For every tar entry at most 10 MiB are written to disk, whatever
  the operating system answers. When no operating-system call fails, the round of a
  regular-file entry ends without an error both when the entry's data ends with end-of-file
  before the cap and when the data is longer than the cap: the round opens the file, writes
  the data up to the cap in one piece and closes the file, so a longer entry is cut to its
  first 10 MiB, and the extraction goes on with the entries that follow as if the entry had
  not been there.
\<close>

theorem copy_is_capped_and_continues:
  "sum_list (map writtenBytes (fst (extractEntry w d e))) \<le> 10 * 2 ^ 20
   \<and> (Typeflag (header e) = TypeReg
        \<and> HasPrefix (Join d (Name (header e))) (Clean d)
        \<and> openFileErr w (Join d (Name (header e))) = None
        \<and> writeErr w (Join d (Name (header e))) = None
        \<and> closeFileErr w (Join d (Name (header e))) = None
        \<and> (length (content e) < 10 * 2 ^ 20 \<longrightarrow> contentEnd e = EOF)
      \<longrightarrow> extractEntry w d e =
            ([FsOpenFile (Join d (Name (header e)))
                (if FileInfoMode (header e) = 0 then 0x180 else FileInfoMode (header e)),
              FsWrite (Join d (Name (header e))) (take (10 * 2 ^ 20) (content e)),
              FsCloseFile (Join d (Name (header e)))], None)
          \<and> unpackArchive w d \<lparr>entries = e # es, archiveEnd = fin\<rparr> =
            ([FsOpenFile (Join d (Name (header e)))
                (if FileInfoMode (header e) = 0 then 0x180 else FileInfoMode (header e)),
              FsWrite (Join d (Name (header e))) (take (10 * 2 ^ 20) (content e)),
              FsCloseFile (Join d (Name (header e)))]
               @ fst (unpackArchive w d \<lparr>entries = es, archiveEnd = fin\<rparr>),
             snd (unpackArchive w d \<lparr>entries = es, archiveEnd = fin\<rparr>)))"
proof -
  have cap: "maxFileSize = 10 * 2 ^ 20"
    by (simp add: maxFileSize_def)
  show ?thesis
    using extractEntry_written [of w d e] extractEntry_regular [of e d w]
    unfolding cap by (auto simp: unpackArchive_def split: prod.splits)
qed

text \<open>
  The theorem at an archive of two entries: one of 10 MiB and one byte, which is cut, and
  the file of the tests after it, which is extracted as usual.
\<close>

theorem copy_is_capped_and_continues_witness:
  "sum_list (map writtenBytes (fst (extractEntry exampleWorld ''/tmp/work''
       (regularFile ''big.bin'' (replicate 10485761 (CHR ''a'')))))) \<le> 10 * 2 ^ 20
   \<and> unpackArchive exampleWorld ''/tmp/work''
        \<lparr>entries = [regularFile ''big.bin'' (replicate 10485761 (CHR ''a'')),
                    regularFile ''test.txt'' ''content''], archiveEnd = EOF\<rparr> =
      ([FsOpenFile ''/tmp/work/big.bin'' 0x180,
        FsWrite ''/tmp/work/big.bin'' (replicate 10485760 (CHR ''a'')),
        FsCloseFile ''/tmp/work/big.bin'',
        FsOpenFile ''/tmp/work/test.txt'' 0x180,
        FsWrite ''/tmp/work/test.txt'' ''content'',
        FsCloseFile ''/tmp/work/test.txt''], None)"
proof -
  let ?e = "regularFile ''big.bin'' (replicate 10485761 (CHR ''a''))"
  have p: "Join ''/tmp/work'' (Name (header ?e)) = ''/tmp/work/big.bin''"
    by (simp add: example_defs path_defs)
  have h: "Typeflag (header ?e) = TypeReg
      \<and> HasPrefix (Join ''/tmp/work'' (Name (header ?e))) (Clean ''/tmp/work'')
      \<and> openFileErr exampleWorld (Join ''/tmp/work'' (Name (header ?e))) = None
      \<and> writeErr exampleWorld (Join ''/tmp/work'' (Name (header ?e))) = None
      \<and> closeFileErr exampleWorld (Join ''/tmp/work'' (Name (header ?e))) = None
      \<and> (length (content ?e) < 10 * 2 ^ 20 \<longrightarrow> contentEnd ?e = EOF)"
    unfolding p by (simp add: example_defs path_defs)
  have t: "take (10 * 2 ^ 20) (content ?e) = replicate 10485760 (CHR ''a'')"
    by (simp add: example_defs)
  have m: "(if FileInfoMode (header ?e) = 0 then 0x180 else FileInfoMode (header ?e)) = 0x180"
    by (simp add: example_defs mode_defs)
  have r: "unpackArchive exampleWorld ''/tmp/work''
      \<lparr>entries = [regularFile ''test.txt'' ''content''], archiveEnd = EOF\<rparr> =
      ([FsOpenFile ''/tmp/work/test.txt'' 0x180, FsWrite ''/tmp/work/test.txt'' ''content'',
        FsCloseFile ''/tmp/work/test.txt''], None)"
    by (simp add: extract_defs example_defs path_defs mode_defs Let_def)
  from copy_is_capped_and_continues [of exampleWorld "''/tmp/work''" ?e
      "[regularFile ''test.txt'' ''content'']" EOF] h
  show ?thesis unfolding p t m r by simp
qed

text \<open>
  Claim C6. Every tar entry whose recorded mode is zero is created on disk with mode
  0600; an entry with another recorded mode keeps it.

  The default of line 242 is taken when \<open>header.FileInfo().Mode()\<close> is zero, and that
  value carries the file type: for a directory entry it always has the bit \<open>ModeDir\<close>.
  So a directory entry whose recorded mode is zero is passed to \<open>os.MkdirAll\<close> with
  \<open>ModeDir\<close> alone, whose permission bits are 000, not 0600 (\<open>0x180\<close>); the regular file
  after it, with the same recorded mode, gets 0600. The theorem evaluates the extraction
  of such an archive.
\<close>

theorem directory_with_zero_mode_gets_no_permissions:
  "FileInfoMode (header (directoryEntry ''dir'')) = ModeDir
   \<and> ModeDir AND 0x1FF = 0
   \<and> unpackArchive exampleWorld ''/tmp/work''
        \<lparr>entries = [directoryEntry ''dir'', regularFile ''test.txt'' ''content''],
          archiveEnd = EOF\<rparr> =
      ([FsMkdirAll ''/tmp/work/dir'' 0x80000000,
        FsOpenFile ''/tmp/work/test.txt'' 0x180,
        FsWrite ''/tmp/work/test.txt'' ''content'',
        FsCloseFile ''/tmp/work/test.txt''], None)"
  by (simp add: example_defs extract_defs path_defs mode_defs Let_def)

section \<open>The runner and its terminal calls\<close>



















lemma acquiredJobCancelled_emit [simp]:
  "acquiredJobCancelled (emit evs p) = acquiredJobCancelled p"
  by (simp add: emit_def)
















lemma opts_emit [simp]: "opts (emit evs p) = opts p"
  by (simp add: emit_def)

lemma opts_goPanic [simp]: "opts (goPanic p) = opts p"
  by (simp add: goPanic_def)

lemma opts_cancelActiveJob [simp]: "opts (cancelActiveJob m p) = opts p"
  by (simp add: cancelActiveJob_def Let_def split: option.splits)

lemma opts_finishJob [simp]: "opts (finishJob p) = opts p"
  by (simp add: finishJob_def split: option.splits)

lemma opts_parsePump [simp]: "opts (parsePump w n ms fin p) = opts p"
  by (induction w n ms fin p rule: parsePump.induct)
    (simp_all add: Let_def split: option.splits)

lemma opts_provisionPump [simp]: "opts (provisionPump w n ms fin p) = opts p"
  by (induction w n ms fin p rule: provisionPump.induct)
    (simp_all add: Let_def split: option.splits)




text \<open>
  Claim C7. An acquired job whose provisioner kind is not in the registry is cancelled
  at once with the message "provisioner %q not registered" formatted with the kind; no
  provisioner stream is opened and no \<open>CompleteJob\<close> is sent.

  From a daemon that is neither closed nor running a job, \<open>acquireJob\<close> with a job of a
  non-empty id starts the runner; the runner calls \<open>cancelActiveJob\<close> with that message
  as its first step, and everything the two do is: the \<open>AcquireJob\<close> call, the start of
  the runner, the cancellation of the job context, and the \<open>CancelJob\<close> call, whose error
  is the message behind the prefix that \<open>cancelActiveJob\<close> puts before every message.
\<close>

theorem unregistered_provisioner_is_cancelled:
  assumes "\<not> isRunningJob p" and "\<not> isClosed p" and "JobId job \<noteq> []"
    and "Provisioners (opts p) (Provisioner job) = None"
  shows "runJob w (acquireJob (AcquireOk job) p) =
           cancelActiveJob (''provisioner '' @ quote w (Provisioner job) @ '' not registered'')
             ((acquireJob (AcquireOk job) p)\<lparr>sentinelWaiting := True\<rparr>)
       \<and> trace (runJob w (acquireJob (AcquireOk job) p)) =
           trace p @ [RpcAcquireJob, GoRunJob, JobContextCancel,
             RpcCancelJob \<lparr>cnlJobId = JobId job,
               cnlError = ''provisioner daemon: provisioner '' @ quote w (Provisioner job) @
                 '' not registered''\<rparr>]"
  using assms
  by (simp add: runJob_def acquireJob_def cancelActiveJob_def isRunningJob_def isClosed_def
      emit_def Let_def)

theorem unregistered_provisioner_is_cancelled_witness:
  "trace (runJob exampleWorld (acquireJob
      (AcquireOk ((exampleJob [regularFile ''test.txt'' ''content''])
         \<lparr>Provisioner := ''terraform''\<rparr>)) (newDaemon exampleOptions))) =
     [RpcAcquireJob, GoRunJob, JobContextCancel,
      RpcCancelJob \<lparr>cnlJobId = ''test'',
        cnlError = ''provisioner daemon: provisioner '' @ [CHR 0x22] @ ''terraform'' @
          [CHR 0x22] @ '' not registered''\<rparr>]"
proof -
  let ?job = "(exampleJob [regularFile ''test.txt'' ''content''])\<lparr>Provisioner := ''terraform''\<rparr>"
  let ?p = "newDaemon exampleOptions"
  have 1: "\<not> isRunningJob ?p" and 2: "\<not> isClosed ?p"
    by (simp_all add: example_defs daemon_defs)
  have 3: "JobId ?job \<noteq> []"
    by (simp add: example_defs)
  have 4: "Provisioners (opts ?p) (Provisioner ?job) = None"
    by (simp add: example_defs)
  have tr: "trace ?p = []" and q: "quote exampleWorld (Provisioner ?job) =
      [CHR 0x22] @ ''terraform'' @ [CHR 0x22]" and j: "JobId ?job = ''test''"
    by (simp_all add: example_defs)
  from unregistered_provisioner_is_cancelled [OF 1 2 3 4, of exampleWorld]
  show ?thesis unfolding tr q j by (elim conjE) simp
qed

section \<open>The job slot, cleanup and \<open>Close\<close>\<close>

text \<open>
  When the removal of the work directory succeeds, the cleanup goroutine removes the
  directory, stores \<open>false\<close> in the running flag and closes the done channel, in that
  order.
\<close>

lemma cleanup_in_order:
  assumes "sentinelReady p" and "removeAllErr w (WorkDirectory (opts p)) = None"
    and "acquiredJobDone p = Some c" and "\<not> chanClosed c"
  shows "cleanupSentinel w p =
           p\<lparr>sentinelWaiting := False, acquiredJobRunning := False,
             acquiredJobDone := Some (c\<lparr>chanClosed := True\<rparr>),
             trace := trace p @ [FsRemoveAll (WorkDirectory (opts p)), StoreRunning False,
               CloseDoneChan]\<rparr>"
  using assms by (simp add: cleanupSentinel_def closeDone_def emit_def Let_def)

text \<open>
  Claim C3. For every job that enters the running state the cleanup goroutine runs
  exactly once: it wipes the work directory, sets the running flag to false and closes the
  done channel exactly once, in that order, when the daemon closes or the job context ends.

  When \<open>os.RemoveAll\<close> returns an error, the goroutine calls \<open>cancelActiveJob\<close> and
  returns (lines 201 to 204): the running flag stays true and the done channel is never
  closed. The theorem runs the job of the tests to its end in a world where the removal
  fails. The runner has sent \<open>CompleteJob\<close> and cancelled the job context, so the cleanup
  goroutine is ready; after it has run, the slot is still running, the channel is open, no
  cleanup goroutine is left to close it, and the events after the eleven of the runner are
  the removal and the cancellation of a job that had completed. A \<open>Close\<close> in that state
  waits for the channel for ever.
\<close>

theorem failed_removal_leaves_job_running:
  "sentinelReady (runJob undeletableWorld
       (acquired (exampleJob [regularFile ''test.txt'' ''content''])))
   \<and> acquiredJobRunning (cleanupSentinel undeletableWorld (runJob undeletableWorld
       (acquired (exampleJob [regularFile ''test.txt'' ''content'']))))
   \<and> \<not> doneIsClosed (cleanupSentinel undeletableWorld (runJob undeletableWorld
       (acquired (exampleJob [regularFile ''test.txt'' ''content'']))))
   \<and> \<not> sentinelWaiting (cleanupSentinel undeletableWorld (runJob undeletableWorld
       (acquired (exampleJob [regularFile ''test.txt'' ''content'']))))
   \<and> drop 11 (trace (cleanupSentinel undeletableWorld (runJob undeletableWorld
       (acquired (exampleJob [regularFile ''test.txt'' ''content''])))))
     = [FsRemoveAll ''/tmp/work'', JobContextCancel,
        RpcCancelJob \<lparr>cnlJobId = ''test'',
          cnlError = ''provisioner daemon: remove all from '' @ [CHR 0x22] @ ''/tmp/work'' @
            [CHR 0x22] @ '' directory: permission denied''\<rparr>]
   \<and> fst (Close undeletableWorld (cleanupSentinel undeletableWorld (runJob undeletableWorld
       (acquired (exampleJob [regularFile ''test.txt'' ''content'']))))) = Blocked"
  by (simp add: undeletableWorld_def example_defs daemon_defs run_defs extract_defs path_defs
      mode_defs close_defs Let_def)

text \<open>
  Claim C8, as it fails. The claim says that after an \<open>AcquireJob\<close> response with an empty
  \<open>JobId\<close> the acquired job of the slot is the one it was before. Line 158 assigns the
  response to \<open>p.acquiredJob\<close> before line 169 looks at its \<open>JobId\<close>: a new daemon, whose
  acquired job is nil, holds the empty response after the call.
\<close>

theorem empty_response_replaces_job:
  "JobId emptyJob = []
   \<and> acquiredJob (acquireJob (AcquireOk emptyJob) (newDaemon exampleOptions)) = Some emptyJob
   \<and> acquiredJob (newDaemon exampleOptions) = None"
  by (simp add: emptyJob_def example_defs daemon_defs)

lemma acquireJob_empty:
  "JobId job = [] \<Longrightarrow>
   acquireJob (AcquireOk job) p =
     (if isRunningJob p then p
      else p\<lparr>acquiredJob := Some job, trace := trace p @ [RpcAcquireJob]\<rparr>)"
  by (simp add: acquireJob_def emit_def Let_def)

text \<open>
  Claim C8, amended. Whenever \<open>AcquireJob\<close> returns a response with an empty \<open>JobId\<close>, the
  daemon changes nothing but the acquired job, which becomes the response: the running
  flag, the cancelled flag, the cancel handle, the done channel and every other field are
  the same before and after the call, no runner is started and nothing is sent but the
  \<open>AcquireJob\<close> call itself. This holds for any number of empty responses in a row; after
  them the acquired job is the last response. While a job is running \<open>acquireJob\<close> does
  not call \<open>AcquireJob\<close> at all and changes nothing.
\<close>

theorem empty_responses_keep_slot:
  assumes "\<forall>job \<in> set jobs. JobId job = []"
  shows "foldl (\<lambda>q job. acquireJob (AcquireOk job) q) p jobs =
           (if isRunningJob p \<or> jobs = [] then p
            else p\<lparr>acquiredJob := Some (last jobs),
                   trace := trace p @ replicate (length jobs) RpcAcquireJob\<rparr>)"
  using assms
proof (induction jobs rule: rev_induct)
  case Nil
  then show ?case by simp
next
  case (snoc job jobs)
  then have e: "JobId job = []" and IH: "foldl (\<lambda>q job. acquireJob (AcquireOk job) q) p jobs =
      (if isRunningJob p \<or> jobs = [] then p
       else p\<lparr>acquiredJob := Some (last jobs),
              trace := trace p @ replicate (length jobs) RpcAcquireJob\<rparr>)"
    by simp_all
  show ?case
    by (simp add: IH acquireJob_empty [OF e] isRunningJob_def replicate_append_same)
qed

theorem empty_responses_keep_slot_witness:
  "foldl (\<lambda>q job. acquireJob (AcquireOk job) q) (newDaemon exampleOptions)
      [emptyJob, emptyJob] =
   (newDaemon exampleOptions)\<lparr>acquiredJob := Some emptyJob,
      trace := [RpcAcquireJob, RpcAcquireJob]\<rparr>"
proof -
  have h: "\<forall>job \<in> set [emptyJob, emptyJob]. JobId job = []"
    by (simp add: emptyJob_def)
  from empty_responses_keep_slot [OF h, of "newDaemon exampleOptions"] show ?thesis
    by (simp add: newDaemon_def isRunningJob_def)
qed

lemma closeWithError_open:
  assumes "\<not> isClosed p"
  shows "fst (closeWithError w e p) = Blocked
       \<or> (fst (closeWithError w e p) = Returned e
          \<and> closed (snd (closeWithError w e p))
          \<and> closeError (snd (closeWithError w e p)) = e)"
  using assms by (simp add: closeWithError_def Let_def emit_def)

text \<open>
  Claim C9. \<open>Close\<close> is idempotent: a second call returns the error that the first call
  returned, does no further shutdown work and sends no further \<open>CancelJob\<close>.

  If a call of \<open>closeWithError\<close> returns \<open>r\<close> and leaves the daemon \<open>q\<close>, then a later
  call, with any error argument and whatever the outside world does, returns \<open>r\<close> again and
  leaves \<open>q\<close> as it is, events included: nothing is sent and nothing is closed again.
\<close>

theorem close_twice:
  assumes "closeWithError w e1 p = (Returned r, q)"
  shows "closeWithError w' e2 q = (Returned r, q) \<and> Close w' q = (Returned r, q)"
proof (cases "isClosed p")
  case True
  with assms have "q = p" and "r = closeError p"
    by (auto simp: closeWithError_def)
  with True show ?thesis by (simp add: closeWithError_def Close_def)
next
  case False
  from closeWithError_open [OF False, of w e1] assms
  have "r = e1 \<and> isClosed q \<and> closeError q = e1"
    by (simp add: isClosed_def)
  then show ?thesis by (simp add: closeWithError_def Close_def)
qed

text \<open>
  The theorem at a first \<open>Close\<close> that finds the job of the tests in the slot: it sends one
  \<open>CancelJob\<close>, waits for the cleanup and returns nil; the calls after it return nil and
  leave the one \<open>CancelJob\<close>.
\<close>

theorem close_twice_witness:
  "\<exists>q. Close exampleWorld (runJob exampleWorld
          (acquired (exampleJob [regularFile ''test.txt'' ''content'']))) = (Returned None, q)
      \<and> closeWithError exampleWorld (Some ''again'') q = (Returned None, q)
      \<and> Close exampleWorld q = (Returned None, q)
      \<and> filter isCancel (trace q) =
          [RpcCancelJob \<lparr>cnlJobId = ''test'',
             cnlError = ''provisioner daemon: provisioner daemon was shutdown gracefully''\<rparr>]"
proof -
  let ?p = "runJob exampleWorld (acquired (exampleJob [regularFile ''test.txt'' ''content'']))"
  let ?q = "snd (Close exampleWorld ?p)"
  have f: "fst (Close exampleWorld ?p) = Returned None"
    by (simp add: example_defs daemon_defs run_defs extract_defs path_defs mode_defs
        close_defs Let_def)
  have c: "filter isCancel (trace ?q) =
      [RpcCancelJob \<lparr>cnlJobId = ''test'',
         cnlError = ''provisioner daemon: provisioner daemon was shutdown gracefully''\<rparr>]"
    by (simp add: example_defs daemon_defs run_defs extract_defs path_defs mode_defs
        close_defs Let_def)
  have cl: "Close exampleWorld ?p = (Returned None, ?q)"
    using f by (simp only: prod_eq_iff fst_conv snd_conv simp_thms)
  then have cl': "closeWithError exampleWorld None ?p = (Returned None, ?q)"
    by (simp only: Close_def)
  from close_twice [OF cl', of exampleWorld "Some ''again''"]
  have t: "closeWithError exampleWorld (Some ''again'') ?q = (Returned None, ?q)"
    and u: "Close exampleWorld ?q = (Returned None, ?q)"
    by (rule conjunct1, rule conjunct2)
  show ?thesis
    by (rule exI [of _ ?q]) (intro conjI cl t u c)
qed

lemma applyCall_closed_idle:
  assumes "isClosed p" and "\<not> isRunningJob p"
  shows "isClosed (applyCall w p c) \<and> \<not> isRunningJob (applyCall w p c)
       \<and> filter startsOrEndsJob (trace (applyCall w p c)) = filter startsOrEndsJob (trace p)"
proof (cases c)
  case (CallAcquire r)
  with assms show ?thesis
    by (cases r) (simp_all add: acquireJob_def isClosed_def isRunningJob_def emit_def Let_def)
next
  case (CallCancel m)
  with assms show ?thesis by (simp add: cancelActiveJob_def)
next
  case (CallClose e)
  with assms show ?thesis by (simp add: closeWithError_def)
next
  case CallCleanup
  with assms show ?thesis
    by (auto simp: cleanupSentinel_def closeDone_def cancelActiveJob_def isClosed_def
        isRunningJob_def emit_def goPanic_def Let_def split: option.splits)
qed

lemma calls_closed_idle:
  "isClosed p \<Longrightarrow> \<not> isRunningJob p \<Longrightarrow>
   isClosed (foldl (applyCall w) p cs) \<and> \<not> isRunningJob (foldl (applyCall w) p cs)
   \<and> filter startsOrEndsJob (trace (foldl (applyCall w) p cs)) =
       filter startsOrEndsJob (trace p)"
proof (induction cs arbitrary: p)
  case Nil
  then show ?case by simp
next
  case (Cons c cs)
  from applyCall_closed_idle [OF Cons.prems, of w c] Cons.IH [of "applyCall w p c"]
  show ?case by simp
qed

text \<open>
  Claim C10. A job with a non-empty id that \<open>AcquireJob\<close> returns after the daemon has been
  closed is dropped: the slot does not become running, no runner is started, and neither
  \<open>CompleteJob\<close> nor \<open>CancelJob\<close> is ever sent for it.

  \<open>acquireJob\<close> calls \<open>AcquireJob\<close> only when no job is running. In a closed daemon with
  no job running it stores the job that the call returns and does nothing else. Whatever is called afterwards, in any order and any number of times (the acquire
  ticker, a late \<open>cancelActiveJob\<close>, \<open>Close\<close>, a cleanup goroutine), the slot is not
  running and the events that start a runner, set the running flag, or send a terminal
  call are those that were there before the job was acquired.
\<close>

theorem job_acquired_after_close_is_dropped:
  assumes "isClosed p" and "\<not> isRunningJob p" and "JobId job \<noteq> []"
  shows "acquireJob (AcquireOk job) p =
           p\<lparr>acquiredJob := Some job, trace := trace p @ [RpcAcquireJob]\<rparr>
       \<and> \<not> isRunningJob (foldl (applyCall w) (acquireJob (AcquireOk job) p) cs)
       \<and> filter startsOrEndsJob
            (trace (foldl (applyCall w) (acquireJob (AcquireOk job) p) cs)) =
          filter startsOrEndsJob (trace p)"
proof -
  let ?q = "p\<lparr>acquiredJob := Some job, trace := trace p @ [RpcAcquireJob]\<rparr>"
  have eq: "acquireJob (AcquireOk job) p = ?q"
    using assms by (simp add: acquireJob_def isClosed_def isRunningJob_def emit_def Let_def)
  have "isClosed ?q" and "\<not> isRunningJob ?q"
    using assms by (simp_all add: isClosed_def isRunningJob_def)
  from calls_closed_idle [OF this, of w cs] show ?thesis
    unfolding eq by simp
qed

theorem job_acquired_after_close_is_dropped_witness:
  "isClosed closedDaemon \<and> \<not> isRunningJob closedDaemon
   \<and> acquireJob (AcquireOk (exampleJob [regularFile ''test.txt'' ''content''])) closedDaemon =
       closedDaemon\<lparr>acquiredJob := Some (exampleJob [regularFile ''test.txt'' ''content'']),
         trace := trace closedDaemon @ [RpcAcquireJob]\<rparr>
   \<and> \<not> isRunningJob (foldl (applyCall exampleWorld)
         (acquireJob (AcquireOk (exampleJob [regularFile ''test.txt'' ''content'']))
            closedDaemon)
         [CallCleanup, CallCancel ''late'', CallClose None,
          CallAcquire (AcquireOk (exampleJob [regularFile ''test.txt'' ''content'']))])
   \<and> filter startsOrEndsJob (trace (foldl (applyCall exampleWorld)
         (acquireJob (AcquireOk (exampleJob [regularFile ''test.txt'' ''content'']))
            closedDaemon)
         [CallCleanup, CallCancel ''late'', CallClose None,
          CallAcquire (AcquireOk (exampleJob [regularFile ''test.txt'' ''content'']))])) = []"
proof -
  have 1: "isClosed closedDaemon" and 2: "\<not> isRunningJob closedDaemon"
    by (simp_all add: closedDaemon_def closeWithError_def example_defs daemon_defs Let_def)
  have 3: "JobId (exampleJob [regularFile ''test.txt'' ''content'']) \<noteq> []"
    by (simp add: exampleJob_def)
  have 4: "filter startsOrEndsJob (trace closedDaemon) = []"
    by (simp add: closedDaemon_def closeWithError_def example_defs daemon_defs Let_def)
  from job_acquired_after_close_is_dropped [OF 1 2 3, of exampleWorld
      "[CallCleanup, CallCancel ''late'', CallClose None,
        CallAcquire (AcquireOk (exampleJob [regularFile ''test.txt'' ''content'']))]"] 1 2
  show ?thesis unfolding 4 by blast
qed

end
